theory Spec2Isabelle
  imports Complex_Main "HOL-Library.Word"
begin

section \<open>The frame-sampling and inference pipeline of App.js\<close>

text \<open>
  App.js connects a camera frame processor (a worklet, run once per frame) to an
  asynchronous ONNX inference call on the JS thread. The two sides share two flags,
  \<^verbatim>\<open>isModelReady\<close> and \<^verbatim>\<open>isInferenceBusy\<close>. The embedding below follows the source
  function by function. A JavaScript number is modelled by the real number it denotes. The
  product of line 65, whose result is printed, rounds as IEEE 754 double precision does;
  the crop rectangle of lines 88 to 91 is computed exactly. NaN and the infinities are
  not represented, and \<^verbatim>\<open>undefined\<close> (an index outside a typed array) is \<open>None\<close>.
\<close>

subsection \<open>Constants (App.js, lines 9 to 12)\<close>

definition INPUT_TENSOR_NAME :: string where
  "INPUT_TENSOR_NAME = ''image_buffer''"

definition CONFIDENCE_THRESHOLD :: real where
  "CONFIDENCE_THRESHOLD = 0.95"

definition TARGET_FPS :: real where
  "TARGET_FPS = 2"

subsection \<open>JavaScript values\<close>

text \<open>
  An exception value: only its \<^verbatim>\<open>message\<close> is ever read (by the two \<^verbatim>\<open>console.log\<close>
  calls). \<open>TypeError_undefined\<close> is the error of reading a property of \<^verbatim>\<open>undefined\<close>.
\<close>

datatype js_error = Error string | TypeError_undefined

text \<open>
  A string produced from a number. \<open>Chars\<close> carries the characters; \<open>NumberToString x\<close>
  stands for the result of \<^verbatim>\<open>Number::toString\<close> on a number of magnitude at least
  \<open>10^21\<close> (exponent notation, or \<^verbatim>\<open>Infinity\<close> for a product that overflows), whose
  characters are not computed here.
\<close>

datatype js_string = Chars string | NumberToString real

text \<open>The decimal digits of a natural number.\<close>

fun decimal :: "nat \<Rightarrow> string" where
  "decimal n =
     (if n < 10 then [''0123456789'' ! n]
      else decimal (n div 10) @ [''0123456789'' ! (n mod 10)])"

declare decimal.simps [simp del]

text \<open>
  \<^verbatim>\<open>x.toFixed(0)\<close> (ECMAScript, Number.prototype.toFixed with no fraction digits): a
  negative \<open>x\<close> gives a minus sign and the digits of \<open>-x\<close>; a magnitude of \<open>10^21\<close> or more
  falls back to \<^verbatim>\<open>Number::toString\<close>; otherwise the digits are those of the integer
  nearest to \<open>x\<close>, the larger one on a tie, which for \<open>x \<ge> 0\<close> is \<open>round x\<close>.
\<close>

definition toFixed0 :: "real \<Rightarrow> js_string" where
  "toFixed0 x =
     (if 10 ^ 21 \<le> \<bar>x\<bar> then NumberToString x
      else if x < 0 then Chars (''-'' @ decimal (nat (round (- x))))
      else Chars (decimal (nat (round x))))"

text \<open>
  \<^verbatim>\<open>Math.round\<close>: the nearest integer, the one nearer to plus infinity on a tie, that is
  \<open>round\<close>; \<^verbatim>\<open>undefined\<close> converts to NaN, and the result is NaN (\<open>None\<close>).
\<close>

definition Math_round :: "real option \<Rightarrow> int option" where
  "Math_round v = (case v of None \<Rightarrow> None | Some x \<Rightarrow> Some (round x))"

text \<open>
  Double precision. \<open>bit_length n\<close> is the number of binary digits of \<open>n\<close>, and
  \<open>binary_exponent a\<close>, for a positive \<open>a\<close>, the exponent \<open>e\<close> with
  \<open>2^e \<le> a < 2^(e+1)\<close>.
\<close>

fun bit_length :: "nat \<Rightarrow> nat" where
  "bit_length n = (if n = 0 then 0 else Suc (bit_length (n div 2)))"

declare bit_length.simps [simp del]

definition pow2 :: "int \<Rightarrow> real" where
  "pow2 k = (if 0 \<le> k then 2 ^ nat k else 1 / 2 ^ nat (- k))"

definition binary_exponent :: "real \<Rightarrow> int" where
  "binary_exponent a =
     (if 1 \<le> a then int (bit_length (nat \<lfloor>a\<rfloor>)) - 1
      else - int (bit_length (nat (\<lceil>1 / a\<rceil> - 1))))"

text \<open>The nearest integer, the even one on a tie.\<close>

definition round_half_even :: "real \<Rightarrow> int" where
  "round_half_even y =
     (let f = \<lfloor>y\<rfloor>
      in if y - of_int f < 1 / 2 then f
         else if 1 / 2 < y - of_int f then f + 1
         else if even f then f else f + 1)"

text \<open>
  The double nearest to a real number (IEEE 754 binary64, round to nearest, ties to
  even): a multiple of \<open>2^(e - 52)\<close> for the exponent \<open>e\<close> of the number, or of \<open>2^(-1074)\<close>
  in the subnormal range. A result of \<open>2^1024\<close> or more is an infinity in JavaScript; it
  is kept as the rounded number here.
\<close>

definition to_double :: "real \<Rightarrow> real" where
  "to_double x =
     (if x = 0 then 0
      else let q = pow2 (max (binary_exponent \<bar>x\<bar>) (- 1022) - 52)
           in of_int (round_half_even (x / q)) * q)"

text \<open>The product \<^verbatim>\<open>x * y\<close> of two doubles: the exact product, rounded.\<close>

definition double_mul :: "real \<Rightarrow> real \<Rightarrow> real" where
  "double_mul x y = to_double (x * y)"

text \<open>\<^verbatim>\<open>data[i]\<close> on a typed array: \<^verbatim>\<open>undefined\<close> outside the range.\<close>

definition typed_array_get :: "real list \<Rightarrow> nat \<Rightarrow> real option" where
  "typed_array_get data i = (if i < length data then Some (data ! i) else None)"

subsection \<open>Data of the pipeline\<close>

text \<open>
  \<^verbatim>\<open>modelStatus\<close> takes three values in App.js: the initial \<^verbatim>\<open>"Loading..."\<close>, and the
  two strings set by the model load, a check mark with \<^verbatim>\<open>Ready\<close> and a cross with
  \<^verbatim>\<open>Error\<close>.
\<close>

datatype model_status = Status_Loading | Status_Ready | Status_Error

datatype session = InferenceSession nat

record scan_result =
  label :: string
  score :: js_string

record frame =
  width :: nat
  height :: nat
  pixels :: "8 word list"

record rect =
  rect_x :: real
  rect_y :: real
  rect_width :: real
  rect_height :: real

record extent =
  extent_width :: nat
  extent_height :: nat

record resize_options =
  crop :: rect
  scale :: extent
  pixelFormat :: string
  dataType :: string

text \<open>
  What a call of the resize plugin can do: throw, return a falsy value, or return the
  resized pixel buffer (a \<^verbatim>\<open>Uint8Array\<close>).
\<close>

datatype resize_outcome = Resize_Throws js_error | Resize_Falsy | Resized "8 word list"

record tensor =
  tensor_type :: string
  tensor_data :: "8 word list"
  tensor_dims :: "nat list"

text \<open>
  How lines 52 to 56 end: with an error (\<open>Run_Throws\<close>), thrown by the \<^verbatim>\<open>Tensor\<close>
  constructor, which refuses a buffer whose length is not \<open>240 * 320 * 3\<close>, or thrown or
  rejected by \<^verbatim>\<open>session.run\<close>; or with the outputs that \<^verbatim>\<open>session.run\<close> resolves to
  (\<open>Run_Resolves\<close>), an object whose own keys are in insertion order (an association list),
  each output carrying its \<^verbatim>\<open>data\<close>.
\<close>

datatype run_outcome = Run_Throws js_error | Run_Resolves "(string \<times> real list) list"

text \<open>
  The state: the React state (\<open>modelStatus\<close>, \<open>scanResult\<close>, \<open>latency\<close>), the session
  reference, the two shared values, and what the environment holds: the sampler's last
  admitted time, the console, the calls of \<^verbatim>\<open>runInferenceJS\<close> dispatched to the JS thread
  and not yet started (\<open>queued\<close>), and the invocations of \<^verbatim>\<open>performInference\<close> suspended
  at their \<^verbatim>\<open>await\<close> (\<open>awaiting\<close>: the start time and the tensors fed to the session).
\<close>

record app_state =
  modelStatus :: model_status
  scanResult :: "scan_result option"
  latency :: int
  sessionRef :: "session option"
  isModelReady :: bool
  isInferenceBusy :: bool
  lastAdmitted :: "real option"
  console :: "(string \<times> js_error) list"
  queued :: "8 word list list"
  awaiting :: "(int \<times> (string \<times> tensor) list) list"

definition initial_state :: app_state where
  "initial_state =
     \<lparr>modelStatus = Status_Loading, scanResult = None, latency = 0, sessionRef = None,
      isModelReady = False, isInferenceBusy = False, lastAdmitted = None, console = [],
      queued = [], awaiting = []\<rparr>"

subsection \<open>Model load (useEffect, lines 36 to 46)\<close>

definition session_created :: "session \<Rightarrow> app_state \<Rightarrow> app_state" where
  "session_created s st =
     st\<lparr>sessionRef := Some s, isModelReady := True, modelStatus := Status_Ready\<rparr>"

definition session_failed :: "app_state \<Rightarrow> app_state" where
  "session_failed st = st\<lparr>modelStatus := Status_Error\<rparr>"

subsection \<open>The inference task (performInference, lines 48 to 76)\<close>

text \<open>Lines 59 to 69: the value passed to \<^verbatim>\<open>setScanResult\<close>.\<close>

definition scan_result_of :: "real list \<Rightarrow> scan_result option" where
  "scan_result_of data =
     (let score = typed_array_get data 4;
          clsId = typed_array_get data 5
      in case score of
           None \<Rightarrow> None
         | Some sc \<Rightarrow>
             if sc > CONFIDENCE_THRESHOLD
             then Some \<lparr>label = (if Math_round clsId = Some 0 then ''FRONT'' else ''BACK''),
                        score = toFixed0 (double_mul sc 100)\<rparr>
             else None)"

text \<open>
  Lines 52 to 56, up to the \<^verbatim>\<open>await\<close>: the feeds given to \<^verbatim>\<open>session.run\<close>.
\<close>

definition run_feeds :: "8 word list \<Rightarrow> (string \<times> tensor) list" where
  "run_feeds bgrArray =
     [(INPUT_TENSOR_NAME,
       \<lparr>tensor_type = ''uint8'', tensor_data = bgrArray, tensor_dims = [240, 320, 3]\<rparr>)]"

text \<open>
  Lines 58 to 70, after the \<^verbatim>\<open>await\<close>: the body of the \<^verbatim>\<open>try\<close> block, which ends in an
  exception (\<open>Inl\<close>) or in the updated state. Reading \<^verbatim>\<open>.data\<close> of the first output throws
  when the outputs have no key.
\<close>

definition try_body :: "int \<Rightarrow> int \<Rightarrow> run_outcome \<Rightarrow> app_state \<Rightarrow> js_error + app_state" where
  "try_body startTime endTime outcome st =
     (case outcome of
        Run_Throws e \<Rightarrow> Inl e
      | Run_Resolves outputs \<Rightarrow>
          (case outputs of
             [] \<Rightarrow> Inl TypeError_undefined
           | (name, data) # rest \<Rightarrow>
               Inr (st\<lparr>scanResult := scan_result_of data, latency := endTime - startTime\<rparr>)))"

text \<open>The \<^verbatim>\<open>catch\<close> and \<^verbatim>\<open>finally\<close> clauses, lines 71 to 75.\<close>

definition settle :: "int \<Rightarrow> int \<Rightarrow> run_outcome \<Rightarrow> app_state \<Rightarrow> app_state" where
  "settle startTime endTime outcome st =
     (let st' = (case try_body startTime endTime outcome st of
                   Inl e \<Rightarrow> st\<lparr>console := console st @ [(''Inference Error:'', e)]\<rparr>
                 | Inr st1 \<Rightarrow> st1)
      in st'\<lparr>isInferenceBusy := False\<rparr>)"

text \<open>
  One whole invocation, run to its end: the early return of line 49 comes before the
  \<^verbatim>\<open>try\<close>, so it leaves the state as it is.
\<close>

definition performInference ::
  "8 word list \<Rightarrow> int \<Rightarrow> run_outcome \<Rightarrow> int \<Rightarrow> app_state \<Rightarrow> app_state" where
  "performInference bgrArray startTime outcome endTime st =
     (if sessionRef st = None then st else settle startTime endTime outcome st)"

subsection \<open>The sampler\<close>

text \<open>
  Modelled from the spec: \<^verbatim>\<open>runAtTargetFps\<close> belongs to the camera library and is not
  part of the sources. The interval of the specification's RateLimiter is that of the
  target rate, in milliseconds.
\<close>

definition sample_interval :: real where
  "sample_interval = 1000 / TARGET_FPS"

text \<open>
  Modelled from the spec: the RateLimiter that stands for \<^verbatim>\<open>runAtTargetFps\<close>, which is
  not part of the sources. It keeps the time of the last admitted call, initially
  "never"; \<open>admit now\<close> returns true and stores \<open>now\<close> iff
  \<open>now - lastAdmitted \<ge> interval\<close>, and otherwise returns false and changes nothing. The
  first call always admits.
\<close>

definition admit :: "real \<Rightarrow> real option \<Rightarrow> bool \<times> real option" where
  "admit now prev =
     (case prev of
        None \<Rightarrow> (True, Some now)
      | Some t \<Rightarrow> if now - t \<ge> sample_interval then (True, Some now) else (False, Some t))"

text \<open>A sequence of calls: the answers, in order, and the stored time at the end.\<close>

fun admit_all :: "real option \<Rightarrow> real list \<Rightarrow> bool list \<times> real option" where
  "admit_all prev [] = ([], prev)"
| "admit_all prev (t # ts) =
     (let (b, prev') = admit t prev;
          (bs, final) = admit_all prev' ts
      in (b # bs, final))"

text \<open>
  The time of the last admitted call of a sequence, read off the calls and their answers
  (\<open>None\<close> when no call was admitted).
\<close>

definition admitted_times :: "real list \<Rightarrow> bool list \<Rightarrow> real list" where
  "admitted_times ts bs = map fst (filter snd (zip ts bs))"

definition last_admitted :: "real list \<Rightarrow> bool list \<Rightarrow> real option" where
  "last_admitted ts bs =
     (case admitted_times ts bs of [] \<Rightarrow> None | x # xs \<Rightarrow> Some (last (x # xs)))"

subsection \<open>The frame processor (lines 80 to 108)\<close>

text \<open>Lines 88 to 98: the options passed to the resize plugin.\<close>

definition crop_rect :: "frame \<Rightarrow> rect" where
  "crop_rect fr =
     (let cropW = real (width fr) * 0.83;
          cropH = cropW * 1.62;
          cropX = (real (width fr) - cropW) / 2;
          cropY = (real (height fr) - cropH) / 2
      in \<lparr>rect_x = cropX, rect_y = cropY, rect_width = cropW, rect_height = cropH\<rparr>)"

definition resize_request :: "frame \<Rightarrow> resize_options" where
  "resize_request fr =
     \<lparr>crop = crop_rect fr, scale = \<lparr>extent_width = 320, extent_height = 240\<rparr>,
      pixelFormat = ''bgr'', dataType = ''uint8''\<rparr>"

text \<open>The callback given to \<^verbatim>\<open>runAtTargetFps\<close>, lines 84 to 106.\<close>

definition sampled_body ::
  "(frame \<Rightarrow> resize_options \<Rightarrow> resize_outcome) \<Rightarrow> frame \<Rightarrow> app_state \<Rightarrow> app_state" where
  "sampled_body resize fr st =
     (if isInferenceBusy st \<or> \<not> isModelReady st then st
      else case resize fr (resize_request fr) of
             Resize_Throws e \<Rightarrow> st\<lparr>console := console st @ [(''Worklet Error:'', e)]\<rparr>
           | Resize_Falsy \<Rightarrow> st
           | Resized resized \<Rightarrow> st\<lparr>isInferenceBusy := True, queued := queued st @ [resized]\<rparr>)"

definition frameProcessor ::
  "(frame \<Rightarrow> resize_options \<Rightarrow> resize_outcome) \<Rightarrow> real \<Rightarrow> frame \<Rightarrow> app_state \<Rightarrow> app_state" where
  "frameProcessor resize now fr st =
     (case admit now (lastAdmitted st) of
        (True, prev') \<Rightarrow> sampled_body resize fr (st\<lparr>lastAdmitted := prev'\<rparr>)
      | (False, prev') \<Rightarrow> st\<lparr>lastAdmitted := prev'\<rparr>)"

subsection \<open>The pipeline as a transition system\<close>

text \<open>
  The events of the two threads. \<open>Task_Start\<close> is the JS thread taking up the oldest
  dispatched call of \<^verbatim>\<open>performInference\<close> and running it to its \<^verbatim>\<open>await\<close> (or to the
  early return of line 49); \<open>Task_Settle\<close> is the awaited call settling, after which the
  rest of the function runs. Frames may arrive between the two. The frame processor
  handles one frame at a time on its own thread, and each of its runs is one event; a
  \<open>Task_Start\<close> or \<open>Task_Settle\<close> with no call to take up changes nothing.
\<close>

datatype event =
    Session_Created session
  | Session_Failed
  | Frame real frame
  | Task_Start int
  | Task_Settle int run_outcome

definition task_start :: "int \<Rightarrow> app_state \<Rightarrow> app_state" where
  "task_start now st =
     (case queued st of
        [] \<Rightarrow> st
      | bgrArray # rest \<Rightarrow>
          if sessionRef st = None then st\<lparr>queued := rest\<rparr>
          else st\<lparr>queued := rest, awaiting := awaiting st @ [(now, run_feeds bgrArray)]\<rparr>)"

definition task_settle :: "int \<Rightarrow> run_outcome \<Rightarrow> app_state \<Rightarrow> app_state" where
  "task_settle now outcome st =
     (case awaiting st of
        [] \<Rightarrow> st
      | (startTime, feeds) # rest \<Rightarrow> settle startTime now outcome (st\<lparr>awaiting := rest\<rparr>))"

fun step ::
  "(frame \<Rightarrow> resize_options \<Rightarrow> resize_outcome) \<Rightarrow> app_state \<Rightarrow> event \<Rightarrow> app_state" where
  "step resize st (Session_Created s) = session_created s st"
| "step resize st Session_Failed = session_failed st"
| "step resize st (Frame now fr) = frameProcessor resize now fr st"
| "step resize st (Task_Start now) = task_start now st"
| "step resize st (Task_Settle now outcome) = task_settle now outcome st"

definition run ::
  "(frame \<Rightarrow> resize_options \<Rightarrow> resize_outcome) \<Rightarrow> app_state \<Rightarrow> event list \<Rightarrow> app_state" where
  "run resize st evs = foldl (step resize) st evs"

text \<open>The number of units of work holding the slot: dispatched or suspended tasks.\<close>

definition in_flight :: "app_state \<Rightarrow> nat" where
  "in_flight st = length (queued st) + length (awaiting st)"

text \<open>A frame acquires the slot when its processing dispatches a task.\<close>

definition acquires ::
  "(frame \<Rightarrow> resize_options \<Rightarrow> resize_outcome) \<Rightarrow> app_state \<Rightarrow> event \<Rightarrow> bool" where
  "acquires resize st ev =
     (case ev of
        Frame now fr \<Rightarrow> length (queued (step resize st ev)) = Suc (length (queued st))
      | _ \<Rightarrow> False)"

fun is_settle :: "event \<Rightarrow> bool" where
  "is_settle (Task_Settle now outcome) = True"
| "is_settle ev = False"

fun is_session_created :: "event \<Rightarrow> bool" where
  "is_session_created (Session_Created s) = True"
| "is_session_created ev = False"

text \<open>
  The invariant of the pipeline: one task is in flight when the busy flag is set and none
  when it is clear, a busy pipeline is ready, and a ready pipeline has its session.
\<close>

definition pipeline_inv :: "app_state \<Rightarrow> bool" where
  "pipeline_inv st \<longleftrightarrow>
     in_flight st = (if isInferenceBusy st then 1 else 0) \<and>
     (isInferenceBusy st \<longrightarrow> isModelReady st) \<and>
     (isModelReady st \<longrightarrow> sessionRef st \<noteq> None)"

text \<open>
  A pixel buffer, three resize plugins and a frame for the examples: the buffer has the
  \<open>320 * 240 * 3\<close> bytes of a resized BGR image; one plugin always returns it, one always
  throws, one always returns \<^verbatim>\<open>null\<close>.
\<close>

definition bgr_buffer :: "8 word list" where
  "bgr_buffer = replicate (320 * 240 * 3) 0"

definition resize_ok :: "frame \<Rightarrow> resize_options \<Rightarrow> resize_outcome" where
  "resize_ok fr opts = Resized bgr_buffer"

definition resize_bad :: "frame \<Rightarrow> resize_options \<Rightarrow> resize_outcome" where
  "resize_bad fr opts = Resize_Throws (Error ''resize failed'')"

definition resize_null :: "frame \<Rightarrow> resize_options \<Rightarrow> resize_outcome" where
  "resize_null fr opts = Resize_Falsy"

definition frame_vga :: frame where
  "frame_vga = \<lparr>width = 640, height = 480, pixels = []\<rparr>"

text \<open>
  The states of a pipeline whose model has not loaded: nothing was dispatched, published or
  logged.
\<close>

definition not_loaded :: "app_state \<Rightarrow> bool" where
  "not_loaded st \<longleftrightarrow>
     \<not> isModelReady st \<and> sessionRef st = None \<and> \<not> isInferenceBusy st \<and> queued st = [] \<and>
     awaiting st = [] \<and> scanResult st = None \<and> latency st = 0 \<and> console st = []"

section \<open>Properties\<close>

subsection \<open>Interpretation of the engine output\<close>

lemma settled_scan_result:
  "scanResult (settle t0 t1 (Run_Resolves ((name, data) # outs)) st) = scan_result_of data"
  by (simp add: settle_def try_body_def)

lemma scan_result_of_six:
  "scan_result_of (a0 # a1 # a2 # a3 # s # c # others) =
     (if 0.95 < s
      then Some \<lparr>label = (if round c = 0 then ''FRONT'' else ''BACK''),
                 score = toFixed0 (double_mul s 100)\<rparr>
      else None)"
  by (simp add: scan_result_of_def typed_array_get_def Math_round_def CONFIDENCE_THRESHOLD_def)

lemma toFixed0_digits:
  "0 \<le> x \<Longrightarrow> x < 10 ^ 21 \<Longrightarrow> toFixed0 x = Chars (decimal (nat (round x)))"
  by (simp add: toFixed0_def)

subsection \<open>Rounding to double precision\<close>

lemmas double_eval =
  double_mul_def to_double_def binary_exponent_def pow2_def round_half_even_def Let_def
  bit_length.simps

lemma bit_length_eq: "2 ^ k \<le> n \<Longrightarrow> n < 2 ^ Suc k \<Longrightarrow> bit_length n = Suc k"
proof (induction k arbitrary: n)
  case 0
  then have "n = 1" by simp
  then show ?case by (simp add: bit_length.simps)
next
  case (Suc k)
  then have "2 ^ k \<le> n div 2" "n div 2 < 2 ^ Suc k" by auto
  then have "bit_length (n div 2) = Suc k" by (rule Suc.IH)
  moreover from Suc.prems have "n \<noteq> 0" by auto
  ultimately show ?case by (subst bit_length.simps) simp
qed

lemma round_half_even_near: "\<bar>of_int (round_half_even y) - y\<bar> \<le> 1 / 2"
  unfolding round_half_even_def Let_def by (auto; linarith)

lemma round_half_even_nonneg: "0 \<le> y \<Longrightarrow> 0 \<le> round_half_even y"
  unfolding round_half_even_def Let_def by auto

lemma pow2_pos: "0 < pow2 k"
  by (simp add: pow2_def)

lemma to_double_nonneg: "0 \<le> x \<Longrightarrow> 0 \<le> to_double x"
  by (simp add: to_double_def Let_def round_half_even_nonneg pow2_pos less_imp_le)

text \<open>Between 64 and 128 the doubles are the multiples of \<open>2^(-46)\<close>.\<close>

lemma to_double_binade6:
  assumes "64 \<le> x" "x < 128"
  shows "to_double x = of_int (round_half_even (x * 2 ^ 46)) / 2 ^ 46"
proof -
  from assms have "2 ^ 6 \<le> nat \<lfloor>x\<rfloor>" "nat \<lfloor>x\<rfloor> < 2 ^ Suc 6"
    by (simp_all add: le_nat_iff le_floor_iff floor_less_iff nat_less_iff)
  then have "bit_length (nat \<lfloor>x\<rfloor>) = Suc 6" by (rule bit_length_eq)
  with assms have "binary_exponent \<bar>x\<bar> = 6"
    by (simp add: binary_exponent_def)
  with assms show ?thesis
    by (simp add: to_double_def pow2_def)
qed

lemma to_double_binade6_near:
  assumes "64 \<le> x" "x < 128"
  shows "\<bar>to_double x - x\<bar> \<le> 1 / 2 ^ 47" and "to_double x < 129"
proof -
  let ?n = "round_half_even (x * 2 ^ 46)"
  have eq: "to_double x = of_int ?n / 2 ^ 46"
    using assms by (rule to_double_binade6)
  have near: "\<bar>of_int ?n - x * 2 ^ 46\<bar> \<le> 1 / 2"
    by (rule round_half_even_near)
  have "to_double x - x = (of_int ?n - x * 2 ^ 46) / 2 ^ 46"
    by (simp add: eq field_simps)
  then have "\<bar>to_double x - x\<bar> = \<bar>of_int ?n - x * 2 ^ 46\<bar> / 2 ^ 46"
    by (simp only: abs_divide) simp
  also have "\<dots> \<le> (1 / 2) / 2 ^ 46"
    using near by (rule divide_right_mono) simp
  finally show near47: "\<bar>to_double x - x\<bar> \<le> 1 / 2 ^ 47" by simp
  have "(1::real) / 2 ^ 47 \<le> 1" by simp
  with abs_le_D1 [OF near47] assms show "to_double x < 129" by linarith
qed

text \<open>
  The literal \<^verbatim>\<open>0.95\<close> of line 11 denotes the double nearest to 0.95, which lies below it.
  No double lies between the two: on the multiples of \<open>2^(-53)\<close>, which are the doubles
  from 1/2 to 1, a comparison with either gives the same answer, so that the threshold is
  modelled by 0.95 itself.
\<close>

lemma threshold_double: "to_double CONFIDENCE_THRESHOLD = 4278419646001971 / 2 ^ 52"
  by (simp add: CONFIDENCE_THRESHOLD_def double_eval)

lemma threshold_on_doubles:
  "(to_double CONFIDENCE_THRESHOLD < of_int k / 2 ^ 53) = (CONFIDENCE_THRESHOLD < of_int k / 2 ^ 53)"
proof -
  have "(to_double CONFIDENCE_THRESHOLD < of_int k / 2 ^ 53) = (8556839292003942 < k)"
    by (simp add: threshold_double field_simps)
  also have "\<dots> = (CONFIDENCE_THRESHOLD < of_int k / 2 ^ 53)"
    by (simp add: CONFIDENCE_THRESHOLD_def field_simps) linarith
  finally show ?thesis .
qed

subsection \<open>The published result\<close>

text \<open>
  C2. When the engine resolves and the data of its first output has the score \<open>s\<close> at
  index 4 and the class id \<open>c\<close> at index 5, the published result is present iff
  \<open>s > 0.95\<close>, strictly; a present result has the label FRONT iff \<open>c\<close> rounds to 0, and
  BACK otherwise, and its score is \<^verbatim>\<open>(s * 100).toFixed(0)\<close>: the decimal digits of the
  rounded product \<open>s * 100\<close>, the product being that of doubles (and below \<open>10^21\<close>, where
  \<^verbatim>\<open>toFixed\<close> prints digits). For every score up to 1 the product is below that bound and
  within \<open>2^(-47)\<close> of the exact one.
\<close>

theorem published_result_threshold:
  "sessionRef st \<noteq> None \<Longrightarrow>
     scanResult (performInference bgrArray t0
        (Run_Resolves ((name, a0 # a1 # a2 # a3 # s # c # others) # outs)) t1 st) =
       (if 0.95 < s
        then Some \<lparr>label = (if round c = 0 then ''FRONT'' else ''BACK''),
                   score = toFixed0 (double_mul s 100)\<rparr>
        else None)
     \<and> (0.95 < s \<and> double_mul s 100 < 10 ^ 21 \<longrightarrow>
          toFixed0 (double_mul s 100) = Chars (decimal (nat (round (double_mul s 100)))))
     \<and> (0.95 < s \<and> s \<le> 1 \<longrightarrow>
          double_mul s 100 < 10 ^ 21 \<and> \<bar>double_mul s 100 - s * 100\<bar> \<le> 1 / 2 ^ 47)"
proof (intro conjI impI)
  assume "sessionRef st \<noteq> None"
  then show "scanResult (performInference bgrArray t0
        (Run_Resolves ((name, a0 # a1 # a2 # a3 # s # c # others) # outs)) t1 st) =
       (if 0.95 < s
        then Some \<lparr>label = (if round c = 0 then ''FRONT'' else ''BACK''),
                   score = toFixed0 (double_mul s 100)\<rparr>
        else None)"
    by (simp only: performInference_def if_False settled_scan_result scan_result_of_six)
next
  assume "0.95 < s \<and> double_mul s 100 < 10 ^ 21"
  then have "0 \<le> double_mul s 100" and "double_mul s 100 < 10 ^ 21"
    by (simp_all add: double_mul_def to_double_nonneg)
  then show "toFixed0 (double_mul s 100) = Chars (decimal (nat (round (double_mul s 100))))"
    by (rule toFixed0_digits)
next
  assume "0.95 < s \<and> s \<le> 1"
  then have range: "64 \<le> s * 100" "s * 100 < 128"
    by simp_all
  from to_double_binade6_near(2) [OF range] show "double_mul s 100 < 10 ^ 21"
    by (simp add: double_mul_def)
  from to_double_binade6_near(1) [OF range]
  show "\<bar>double_mul s 100 - s * 100\<bar> \<le> 1 / 2 ^ 47"
    by (simp add: double_mul_def)
qed

text \<open>
  The examples of the specification, with the decimal values as written and with the
  doubles nearest to them, and the double nearest to 0.955, whose product with 100 rounds
  to 95.5 and prints as 96.
\<close>

theorem published_result_threshold_witness:
  "sessionRef (session_created (InferenceSession 0) initial_state) \<noteq> None
   \<and> scanResult (performInference bgr_buffer 1000
         (Run_Resolves [(''output'', [0, 0, 0, 0, 0.97, 0.2])]) 1120
         (session_created (InferenceSession 0) initial_state))
       = Some \<lparr>label = ''FRONT'', score = Chars ''97''\<rparr>
   \<and> scanResult (performInference bgr_buffer 1000
         (Run_Resolves [(''output'', [0, 0, 0, 0, 0.9501, 0.49])]) 1120
         (session_created (InferenceSession 0) initial_state))
       = Some \<lparr>label = ''FRONT'', score = Chars ''95''\<rparr>
   \<and> scanResult (performInference bgr_buffer 1000
         (Run_Resolves [(''output'', [0, 0, 0, 0, 0.80, 1])]) 1120
         (session_created (InferenceSession 0) initial_state))
       = None
   \<and> scanResult (performInference bgr_buffer 1000
         (Run_Resolves [(''output'', [0, 0, 0, 0, 0.95, 0])]) 1120
         (session_created (InferenceSession 0) initial_state))
       = None
   \<and> scanResult (performInference bgr_buffer 1000
         (Run_Resolves [(''output'',
            [0, 0, 0, 0, 4368491638549381 / 2 ^ 52, 3602879701896397 / 2 ^ 54])]) 1120
         (session_created (InferenceSession 0) initial_state))
       = Some \<lparr>label = ''FRONT'', score = Chars ''97''\<rparr>
   \<and> scanResult (performInference bgr_buffer 1000
         (Run_Resolves [(''output'',
            [0, 0, 0, 0, 1069717501491177 / 2 ^ 50, 2206763817411543 / 2 ^ 52])]) 1120
         (session_created (InferenceSession 0) initial_state))
       = Some \<lparr>label = ''FRONT'', score = Chars ''95''\<rparr>
   \<and> scanResult (performInference bgr_buffer 1000
         (Run_Resolves [(''output'', [0, 0, 0, 0, 3602879701896397 / 2 ^ 52, 1])]) 1120
         (session_created (InferenceSession 0) initial_state))
       = None
   \<and> scanResult (performInference bgr_buffer 1000
         (Run_Resolves [(''output'', [0, 0, 0, 0, 4278419646001971 / 2 ^ 52, 0])]) 1120
         (session_created (InferenceSession 0) initial_state))
       = None
   \<and> scanResult (performInference bgr_buffer 1000
         (Run_Resolves [(''output'', [0, 0, 0, 0, 8601875288277647 / 2 ^ 53, 1])]) 1120
         (session_created (InferenceSession 0) initial_state))
       = Some \<lparr>label = ''BACK'', score = Chars ''96''\<rparr>
   \<and> double_mul (8601875288277647 / 2 ^ 53) 100 = 95.5
   \<and> \<bar>double_mul (8601875288277647 / 2 ^ 53) 100 - 8601875288277647 / 2 ^ 53 * 100\<bar>
       \<le> 1 / 2 ^ 47"
proof -
  let ?st = "session_created (InferenceSession 0) initial_state"
  have ready: "sessionRef ?st \<noteq> None"
    by (simp add: session_created_def)
  note ex = published_result_threshold [OF ready, where ?a0.0 = 0 and ?a1.0 = 0 and ?a2.0 = 0
      and ?a3.0 = 0 and others = "[]" and outs = "[]" and name = "''output''"
      and bgrArray = bgr_buffer and ?t0.0 = 1000 and ?t1.0 = 1120]
  have products:
    "double_mul 0.97 100 = 97"
    "double_mul 0.9501 100 = 6685734384319857 / 2 ^ 46"
    "double_mul (4368491638549381 / 2 ^ 52) 100 = 97"
    "double_mul (1069717501491177 / 2 ^ 50) 100 = 6685734384319856 / 2 ^ 46"
    "double_mul (8601875288277647 / 2 ^ 53) 100 = 95.5"
    by (simp_all add: double_eval)
  show ?thesis
    using ready ex [of "0.97" "0.2"] ex [of "0.9501" "0.49"] ex [of "0.80" 1] ex [of "0.95" 0]
      ex [of "4368491638549381 / 2 ^ 52" "3602879701896397 / 2 ^ 54"]
      ex [of "1069717501491177 / 2 ^ 50" "2206763817411543 / 2 ^ 52"]
      ex [of "3602879701896397 / 2 ^ 52" 1] ex [of "4278419646001971 / 2 ^ 52" 0]
      ex [of "8601875288277647 / 2 ^ 53" 1]
    unfolding products
    by (simp add: round_def decimal.simps)
qed

subsection \<open>The invariant of the pipeline\<close>

lemma admit_cases:
  "admit now prev = (True, Some now) \<or> admit now prev = (False, prev)"
  by (auto simp: admit_def split: option.splits)

lemma inv_initial: "pipeline_inv initial_state"
  by (simp add: pipeline_inv_def initial_state_def in_flight_def)

lemma inv_session_created: "pipeline_inv st \<Longrightarrow> pipeline_inv (session_created s st)"
  by (simp add: pipeline_inv_def session_created_def in_flight_def)

lemma inv_session_failed: "pipeline_inv st \<Longrightarrow> pipeline_inv (session_failed st)"
  by (simp add: pipeline_inv_def session_failed_def in_flight_def)

lemma inv_sampled_body: "pipeline_inv st \<Longrightarrow> pipeline_inv (sampled_body resize fr st)"
  by (auto simp: pipeline_inv_def sampled_body_def in_flight_def split: resize_outcome.splits if_splits)

lemma inv_lastAdmitted: "pipeline_inv (st\<lparr>lastAdmitted := p\<rparr>) = pipeline_inv st"
  by (simp add: pipeline_inv_def in_flight_def)

lemma inv_frameProcessor: "pipeline_inv st \<Longrightarrow> pipeline_inv (frameProcessor resize now fr st)"
  using admit_cases [of now "lastAdmitted st"]
  by (auto simp: frameProcessor_def inv_lastAdmitted inv_sampled_body)

lemma inv_task_start: "pipeline_inv st \<Longrightarrow> pipeline_inv (task_start now st)"
  by (auto simp: pipeline_inv_def task_start_def in_flight_def split: list.splits if_splits)

lemma settle_fields:
  "isInferenceBusy (settle t0 t1 outcome st) = False"
  "isModelReady (settle t0 t1 outcome st) = isModelReady st"
  "sessionRef (settle t0 t1 outcome st) = sessionRef st"
  "queued (settle t0 t1 outcome st) = queued st"
  "awaiting (settle t0 t1 outcome st) = awaiting st"
  "lastAdmitted (settle t0 t1 outcome st) = lastAdmitted st"
  "modelStatus (settle t0 t1 outcome st) = modelStatus st"
  by (simp_all add: settle_def try_body_def split: run_outcome.splits list.splits prod.splits)

lemma inv_task_settle: "pipeline_inv st \<Longrightarrow> pipeline_inv (task_settle now outcome st)"
  by (auto simp: pipeline_inv_def task_settle_def in_flight_def settle_fields split: list.splits if_splits)

lemma inv_step: "pipeline_inv st \<Longrightarrow> pipeline_inv (step resize st ev)"
  by (cases ev)
    (simp_all add: inv_session_created inv_session_failed inv_frameProcessor inv_task_start
      inv_task_settle)

lemma run_snoc: "run resize st (evs @ [ev]) = step resize (run resize st evs) ev"
  by (simp add: run_def)

lemma run_Nil: "run resize st [] = st"
  by (simp add: run_def)

lemma run_Cons: "run resize st (ev # evs) = run resize (step resize st ev) evs"
  by (simp add: run_def)

lemma inv_run: "pipeline_inv st \<Longrightarrow> pipeline_inv (run resize st evs)"
  by (induction evs rule: rev_induct) (simp_all add: run_Nil run_snoc inv_step)

lemma inv_reachable: "pipeline_inv (run resize initial_state evs)"
  by (rule inv_run [OF inv_initial])

subsection \<open>The gate\<close>

lemma performInference_busy:
  "sessionRef st \<noteq> None \<Longrightarrow> isInferenceBusy (performInference bgrArray t0 outcome t1 st) = False"
  by (auto simp: performInference_def settle_fields)

text \<open>
  The early return of line 49 is the one exit that leaves the flag as it is; it needs a
  state without a session, which the invariant excludes while the flag is set.
\<close>

lemma performInference_no_session:
  "sessionRef st = None \<Longrightarrow> performInference bgrArray t0 outcome t1 st = st"
  by (simp add: performInference_def)

text \<open>
  A dispatched call that is taken up and then settles does what \<open>performInference\<close>
  does in one piece.
\<close>

lemma start_then_settle:
  "queued st = [bgrArray] \<Longrightarrow> awaiting st = [] \<Longrightarrow> sessionRef st \<noteq> None \<Longrightarrow>
     step resize (step resize st (Task_Start t0)) (Task_Settle t1 outcome) =
       (performInference bgrArray t0 outcome t1 st)\<lparr>queued := []\<rparr>"
  by (auto simp: task_start_def task_settle_def performInference_def settle_def try_body_def
      split: run_outcome.splits list.splits)

lemma performInference_fields:
  "isModelReady (performInference bgrArray t0 outcome t1 st) = isModelReady st"
  "sessionRef (performInference bgrArray t0 outcome t1 st) = sessionRef st"
  "queued (performInference bgrArray t0 outcome t1 st) = queued st"
  "awaiting (performInference bgrArray t0 outcome t1 st) = awaiting st"
  "lastAdmitted (performInference bgrArray t0 outcome t1 st) = lastAdmitted st"
  by (simp_all add: performInference_def settle_fields)

lemma acquires_Frame:
  "acquires resize st (Frame now fr) \<longleftrightarrow>
     fst (admit now (lastAdmitted st)) \<and> \<not> isInferenceBusy st \<and> isModelReady st \<and>
     (\<exists>buf. resize fr (resize_request fr) = Resized buf)"
  using admit_cases [of now "lastAdmitted st"]
  by (auto simp: acquires_def frameProcessor_def sampled_body_def
      split: resize_outcome.splits if_splits)

lemma acquires_is_Frame: "acquires resize st ev \<Longrightarrow> \<exists>now fr. ev = Frame now fr"
  by (cases ev) (simp_all add: acquires_def)

lemma busy_blocks: "isInferenceBusy st \<Longrightarrow> \<not> acquires resize st ev"
  by (cases ev) (simp_all add: acquires_Frame, simp_all add: acquires_def)

lemma frameProcessor_busy:
  "isInferenceBusy st \<Longrightarrow> isInferenceBusy (frameProcessor resize now fr st)"
  using admit_cases [of now "lastAdmitted st"]
  by (auto simp: frameProcessor_def sampled_body_def)

lemma busy_after_acquire: "acquires resize st ev \<Longrightarrow> isInferenceBusy (step resize st ev)"
proof -
  assume a: "acquires resize st ev"
  then obtain now fr where ev: "ev = Frame now fr"
    using acquires_is_Frame by blast
  from a ev obtain buf where "fst (admit now (lastAdmitted st))" "\<not> isInferenceBusy st"
    "isModelReady st" "resize fr (resize_request fr) = Resized buf"
    by (auto simp: acquires_Frame)
  then show ?thesis
    using admit_cases [of now "lastAdmitted st"]
    by (auto simp: ev frameProcessor_def sampled_body_def)
qed

lemma busy_kept: "isInferenceBusy st \<Longrightarrow> \<not> is_settle ev \<Longrightarrow> isInferenceBusy (step resize st ev)"
  by (cases ev)
    (simp_all add: session_created_def session_failed_def frameProcessor_busy task_start_def
      split: list.splits)

lemma busy_kept_run:
  "isInferenceBusy st \<Longrightarrow> \<forall>e \<in> set evs. \<not> is_settle e \<Longrightarrow> isInferenceBusy (run resize st evs)"
  by (induction evs rule: rev_induct) (simp_all add: run_Nil run_snoc busy_kept)

lemma reachable_busy_iff:
  "isInferenceBusy (run resize initial_state evs) \<longleftrightarrow> in_flight (run resize initial_state evs) = 1"
  using inv_reachable [of resize evs] by (simp add: pipeline_inv_def)

lemma reachable_in_flight: "in_flight (run resize initial_state evs) \<le> 1"
  using inv_reachable [of resize evs] by (simp add: pipeline_inv_def)

lemma reachable_busy_session:
  "isInferenceBusy (run resize initial_state evs) \<Longrightarrow>
     isModelReady (run resize initial_state evs) \<and> sessionRef (run resize initial_state evs) \<noteq> None"
  using inv_reachable [of resize evs] by (simp add: pipeline_inv_def)

lemma task_settle_releases:
  "awaiting st \<noteq> [] \<Longrightarrow> isInferenceBusy (task_settle now outcome st) = False"
  by (cases "awaiting st") (auto simp: task_settle_def settle_fields)

lemma task_settle_fields:
  "isModelReady (task_settle now outcome st) = isModelReady st"
  "lastAdmitted (task_settle now outcome st) = lastAdmitted st"
  "sessionRef (task_settle now outcome st) = sessionRef st"
  by (simp_all add: task_settle_def settle_fields split: list.splits prod.splits)

text \<open>Unfolding for the evaluation of the examples.\<close>

lemmas eval_defs =
  run_def session_created_def session_failed_def frameProcessor_def sampled_body_def admit_def
  sample_interval_def TARGET_FPS_def task_start_def task_settle_def settle_def try_body_def
  initial_state_def resize_ok_def resize_bad_def resize_null_def in_flight_def
  performInference_def

text \<open>
  C1. In every state the pipeline reaches in which the busy flag is set, an invocation of
  \<^verbatim>\<open>performInference\<close> ends with the flag cleared, however the engine call settles: an
  exception, outputs without a first tensor, a result below the threshold or one above
  it. In particular it is cleared when the engine throws. The next frame that the
  sampler admits and the resize plugin converts then acquires the gate.
\<close>

theorem performInference_releases_gate:
  "isInferenceBusy (run resize initial_state evs) \<Longrightarrow>
     \<not> isInferenceBusy (performInference bgrArray t0 outcome t1 (run resize initial_state evs))
     \<and> \<not> isInferenceBusy
           (performInference bgrArray t0 (Run_Throws e) t1 (run resize initial_state evs))
     \<and> (fst (admit now (lastAdmitted (run resize initial_state evs)))
          \<and> resize fr (resize_request fr) = Resized buf
        \<longrightarrow> acquires resize
              (performInference bgrArray t0 outcome t1 (run resize initial_state evs))
              (Frame now fr))"
proof -
  let ?st = "run resize initial_state evs"
  assume "isInferenceBusy ?st"
  then have ready: "isModelReady ?st" and session: "sessionRef ?st \<noteq> None"
    using reachable_busy_session by blast+
  show ?thesis
    using ready session
    by (simp add: performInference_busy performInference_fields acquires_Frame)
qed

theorem performInference_releases_gate_witness:
  "isInferenceBusy
     (run resize_ok initial_state [Session_Created (InferenceSession 0), Frame 0 frame_vga])
   \<and> \<not> isInferenceBusy (performInference bgr_buffer 1000 (Run_Throws (Error ''engine failed'')) 1120
         (run resize_ok initial_state [Session_Created (InferenceSession 0), Frame 0 frame_vga]))
   \<and> \<not> isInferenceBusy (performInference bgr_buffer 1000 (Run_Resolves []) 1120
         (run resize_ok initial_state [Session_Created (InferenceSession 0), Frame 0 frame_vga]))
   \<and> \<not> isInferenceBusy (performInference bgr_buffer 1000
         (Run_Resolves [(''output'', [0, 0, 0, 0, 0.96875, 0.25])]) 1120
         (run resize_ok initial_state [Session_Created (InferenceSession 0), Frame 0 frame_vga]))
   \<and> \<not> isInferenceBusy (performInference bgr_buffer 1000
         (Run_Resolves [(''output'', [0, 0, 0, 0, 0.75, 1])]) 1120
         (run resize_ok initial_state [Session_Created (InferenceSession 0), Frame 0 frame_vga]))
   \<and> acquires resize_ok
         (performInference bgr_buffer 1000 (Run_Throws (Error ''engine failed'')) 1120
           (run resize_ok initial_state [Session_Created (InferenceSession 0), Frame 0 frame_vga]))
         (Frame 600 frame_vga)"
proof -
  let ?evs = "[Session_Created (InferenceSession 0), Frame 0 frame_vga]"
  have busy: "isInferenceBusy (run resize_ok initial_state ?evs)"
    by (simp add: eval_defs)
  have admitted: "fst (admit 600 (lastAdmitted (run resize_ok initial_state ?evs)))"
    by (simp add: eval_defs)
  have resized: "resize_ok frame_vga (resize_request frame_vga) = Resized bgr_buffer"
    by (simp add: resize_ok_def)
  note gate = performInference_releases_gate [OF busy, where bgrArray = bgr_buffer
      and ?t0.0 = 1000 and ?t1.0 = 1120 and e = "Error ''engine failed''" and now = 600
      and fr = frame_vga and buf = bgr_buffer]
  show ?thesis
    using busy admitted resized
      gate [of "Run_Throws (Error ''engine failed'')"]
      gate [of "Run_Resolves []"]
      gate [of "Run_Resolves [(''output'', [0, 0, 0, 0, 0.96875, 0.25])]"]
      gate [of "Run_Resolves [(''output'', [0, 0, 0, 0, 0.75, 1])]"]
    by blast
qed

text \<open>
  C3. Single flight. In every state the pipeline reaches, at most one unit of work is in
  flight, and the busy flag is set exactly when one is. After a frame has acquired the
  gate, no frame acquires it again as long as no task settles. When the suspended task
  settles, the flag is clear, nothing is in flight, and the next frame that the sampler
  admits and the resize plugin converts acquires the gate.
\<close>

theorem single_flight:
  "in_flight (run resize initial_state evs) \<le> 1
   \<and> (isInferenceBusy (run resize initial_state evs)
        \<longleftrightarrow> in_flight (run resize initial_state evs) = 1)
   \<and> (acquires resize st ev \<and> (\<forall>e \<in> set evs'. \<not> is_settle e)
        \<longrightarrow> \<not> acquires resize (run resize (step resize st ev) evs') ev')
   \<and> (awaiting (run resize initial_state evs) \<noteq> []
        \<longrightarrow> \<not> isInferenceBusy
              (step resize (run resize initial_state evs) (Task_Settle t1 outcome))
          \<and> in_flight (step resize (run resize initial_state evs) (Task_Settle t1 outcome)) = 0
          \<and> (fst (admit now (lastAdmitted (run resize initial_state evs)))
               \<and> resize fr (resize_request fr) = Resized buf
             \<longrightarrow> acquires resize
                   (step resize (run resize initial_state evs) (Task_Settle t1 outcome))
                   (Frame now fr)))"
proof (intro conjI impI)
  let ?st = "run resize initial_state evs"
  let ?st' = "step resize ?st (Task_Settle t1 outcome)"
  show "in_flight ?st \<le> 1"
    by (rule reachable_in_flight)
  show "isInferenceBusy ?st \<longleftrightarrow> in_flight ?st = 1"
    by (rule reachable_busy_iff)
  show "\<not> acquires resize (run resize (step resize st ev) evs') ev'"
    if "acquires resize st ev \<and> (\<forall>e \<in> set evs'. \<not> is_settle e)"
    using that busy_after_acquire busy_kept_run busy_blocks by blast
  have released: "\<not> isInferenceBusy ?st'" if "awaiting ?st \<noteq> []"
    using that by (simp add: task_settle_releases)
  then show "\<not> isInferenceBusy ?st'" if "awaiting ?st \<noteq> []"
    using that by blast
  have "?st' = run resize initial_state (evs @ [Task_Settle t1 outcome])"
    by (simp add: run_snoc)
  then have "isInferenceBusy ?st' \<longleftrightarrow> in_flight ?st' = 1" and "in_flight ?st' \<le> 1"
    using reachable_busy_iff [of resize "evs @ [Task_Settle t1 outcome]"]
      reachable_in_flight [of resize "evs @ [Task_Settle t1 outcome]"]
    by simp_all
  with released show "in_flight ?st' = 0" if "awaiting ?st \<noteq> []"
    using that by linarith
  show "acquires resize ?st' (Frame now fr)"
    if nonempty: "awaiting ?st \<noteq> []"
      and ok: "fst (admit now (lastAdmitted ?st)) \<and> resize fr (resize_request fr) = Resized buf"
  proof -
    from nonempty have "in_flight ?st = 1"
      using reachable_in_flight [of resize evs]
      by (cases "awaiting ?st") (simp_all add: in_flight_def)
    then have "isModelReady ?st"
      using reachable_busy_iff reachable_busy_session by blast
    with ok released [OF nonempty] show ?thesis
      by (simp add: acquires_Frame task_settle_fields)
  qed
qed

theorem single_flight_witness:
  "acquires resize_ok (run resize_ok initial_state [Session_Created (InferenceSession 0)])
     (Frame 0 frame_vga)
   \<and> \<not> is_settle (Frame 600 frame_vga) \<and> \<not> is_settle (Task_Start 1000)
   \<and> \<not> is_settle (Frame 1200 frame_vga)
   \<and> \<not> acquires resize_ok
         (run resize_ok
            (step resize_ok (run resize_ok initial_state [Session_Created (InferenceSession 0)])
               (Frame 0 frame_vga))
            [Frame 600 frame_vga, Task_Start 1000, Frame 1200 frame_vga])
         (Frame 1800 frame_vga)
   \<and> awaiting (run resize_ok initial_state
         [Session_Created (InferenceSession 0), Frame 0 frame_vga, Task_Start 1000]) \<noteq> []
   \<and> in_flight (run resize_ok initial_state
         [Session_Created (InferenceSession 0), Frame 0 frame_vga, Task_Start 1000]) = 1
   \<and> \<not> isInferenceBusy
         (step resize_ok
            (run resize_ok initial_state
               [Session_Created (InferenceSession 0), Frame 0 frame_vga, Task_Start 1000])
            (Task_Settle 1800 (Run_Throws (Error ''engine failed''))))
   \<and> acquires resize_ok
         (step resize_ok
            (run resize_ok initial_state
               [Session_Created (InferenceSession 0), Frame 0 frame_vga, Task_Start 1000])
            (Task_Settle 1800 (Run_Throws (Error ''engine failed''))))
         (Frame 1900 frame_vga)"
proof -
  let ?evs = "[Session_Created (InferenceSession 0), Frame 0 frame_vga, Task_Start 1000]"
  let ?st = "run resize_ok initial_state [Session_Created (InferenceSession 0)]"
  let ?evs' = "[Frame 600 frame_vga, Task_Start 1000, Frame 1200 frame_vga]"
  have first: "acquires resize_ok ?st (Frame 0 frame_vga)"
    by (simp add: acquires_def eval_defs)
  have quiet: "\<forall>e \<in> set ?evs'. \<not> is_settle e"
    by simp
  have each: "\<not> is_settle (Frame 600 frame_vga)" "\<not> is_settle (Task_Start 1000)"
    "\<not> is_settle (Frame 1200 frame_vga)"
    by simp_all
  have suspended: "awaiting (run resize_ok initial_state ?evs) \<noteq> []"
    by (simp add: eval_defs)
  have busy: "isInferenceBusy (run resize_ok initial_state ?evs)"
    by (simp add: eval_defs)
  have admitted: "fst (admit 1900 (lastAdmitted (run resize_ok initial_state ?evs)))"
    by (simp add: eval_defs)
  have resized: "resize_ok frame_vga (resize_request frame_vga) = Resized bgr_buffer"
    by (simp add: resize_ok_def)
  show ?thesis
    using first quiet each suspended busy admitted resized
      single_flight [of resize_ok ?evs ?st "Frame 0 frame_vga" ?evs' "Frame 1800 frame_vga"
        1800 "Run_Throws (Error ''engine failed'')" 1900 frame_vga bgr_buffer]
    by blast
qed

subsection \<open>Engine failure\<close>

text \<open>
  C5. When the engine call throws, the invocation appends one line to the console and
  clears the busy flag, and changes no other field: the published result and the latency
  are those of before.
\<close>

theorem engine_failure_frame:
  "sessionRef st \<noteq> None \<Longrightarrow>
     performInference bgrArray t0 (Run_Throws e) t1 st =
       st\<lparr>console := console st @ [(''Inference Error:'', e)], isInferenceBusy := False\<rparr>
     \<and> scanResult (performInference bgrArray t0 (Run_Throws e) t1 st) = scanResult st
     \<and> latency (performInference bgrArray t0 (Run_Throws e) t1 st) = latency st"
  by (auto simp: performInference_def settle_def try_body_def)

theorem engine_failure_frame_witness:
  "sessionRef (run resize_ok initial_state
       [Session_Created (InferenceSession 0), Frame 0 frame_vga, Task_Start 1000,
        Task_Settle 1100 (Run_Resolves [(''output'', [0, 0, 0, 0, 0.96875, 0.25])]),
        Frame 600 frame_vga]) \<noteq> None
   \<and> scanResult (performInference bgr_buffer 1600 (Run_Throws (Error ''engine failed'')) 1720
        (run resize_ok initial_state
          [Session_Created (InferenceSession 0), Frame 0 frame_vga, Task_Start 1000,
           Task_Settle 1100 (Run_Resolves [(''output'', [0, 0, 0, 0, 0.96875, 0.25])]),
           Frame 600 frame_vga]))
       = Some \<lparr>label = ''FRONT'', score = Chars ''97''\<rparr>
   \<and> latency (performInference bgr_buffer 1600 (Run_Throws (Error ''engine failed'')) 1720
        (run resize_ok initial_state
          [Session_Created (InferenceSession 0), Frame 0 frame_vga, Task_Start 1000,
           Task_Settle 1100 (Run_Resolves [(''output'', [0, 0, 0, 0, 0.96875, 0.25])]),
           Frame 600 frame_vga]))
       = 100
   \<and> console (performInference bgr_buffer 1600 (Run_Throws (Error ''engine failed'')) 1720
        (run resize_ok initial_state
          [Session_Created (InferenceSession 0), Frame 0 frame_vga, Task_Start 1000,
           Task_Settle 1100 (Run_Resolves [(''output'', [0, 0, 0, 0, 0.96875, 0.25])]),
           Frame 600 frame_vga]))
       = [(''Inference Error:'', Error ''engine failed'')]
   \<and> \<not> isInferenceBusy
        (performInference bgr_buffer 1600 (Run_Throws (Error ''engine failed'')) 1720
          (run resize_ok initial_state
            [Session_Created (InferenceSession 0), Frame 0 frame_vga, Task_Start 1000,
             Task_Settle 1100 (Run_Resolves [(''output'', [0, 0, 0, 0, 0.96875, 0.25])]),
             Frame 600 frame_vga]))"
proof -
  let ?st = "run resize_ok initial_state
       [Session_Created (InferenceSession 0), Frame 0 frame_vga, Task_Start 1000,
        Task_Settle 1100 (Run_Resolves [(''output'', [0, 0, 0, 0, 0.96875, 0.25])]),
        Frame 600 frame_vga]"
  have st: "?st =
     \<lparr>modelStatus = Status_Ready, scanResult = Some \<lparr>label = ''FRONT'', score = Chars ''97''\<rparr>,
      latency = 100, sessionRef = Some (InferenceSession 0), isModelReady = True,
      isInferenceBusy = True, lastAdmitted = Some 600, console = [], queued = [bgr_buffer],
      awaiting = []\<rparr>"
    by (simp add: eval_defs scan_result_of_six toFixed0_def double_eval round_def decimal.simps)
  have session: "sessionRef ?st \<noteq> None"
    by (simp only: st) simp
  show ?thesis
    using session
      engine_failure_frame [OF session, of bgr_buffer 1600 "Error ''engine failed''" 1720]
    unfolding st by simp
qed

subsection \<open>Output tensors with fewer than six elements\<close>

lemma scan_result_of_short:
  "length data < 6 \<Longrightarrow>
     scan_result_of data =
       (if length data = 5 \<and> 0.95 < data ! 4
        then Some \<lparr>label = ''BACK'', score = toFixed0 (double_mul (data ! 4) 100)\<rparr>
        else None)"
  by (auto simp: scan_result_of_def typed_array_get_def Math_round_def CONFIDENCE_THRESHOLD_def)

lemma bgr_buffer_length: "length bgr_buffer = 240 * 320 * 3"
  by (simp add: bgr_buffer_def)

lemma detected_state:
  "run resize_ok initial_state
       [Session_Created (InferenceSession 0), Frame 0 frame_vga, Task_Start 1000,
        Task_Settle 1100 (Run_Resolves [(''output'', [0, 0, 0, 0, 0.96875, 0.25])]),
        Frame 600 frame_vga] =
     \<lparr>modelStatus = Status_Ready, scanResult = Some \<lparr>label = ''FRONT'', score = Chars ''97''\<rparr>,
      latency = 100, sessionRef = Some (InferenceSession 0), isModelReady = True,
      isInferenceBusy = True, lastAdmitted = Some 600, console = [], queued = [bgr_buffer],
      awaiting = []\<rparr>"
  by (simp add: eval_defs scan_result_of_six toFixed0_def double_eval round_def decimal.simps)

text \<open>
  C4, as stated, fails: an output tensor with fewer than six elements is not treated as
  an engine failure. After a detection of FRONT at 97, and for a buffer of the size the
  tensor needs, a five-element output with score 0.984375 publishes BACK at 98, and an
  empty output clears the result; both record the latency and log nothing, whereas an
  engine exception keeps the result and the latency and logs one line.
\<close>

theorem short_tensor_counterexample:
  "length bgr_buffer = 240 * 320 * 3
   \<and> performInference bgr_buffer 1600 (Run_Resolves [(''output'', [0, 0, 0, 0, 0.984375])]) 1720
     (run resize_ok initial_state
       [Session_Created (InferenceSession 0), Frame 0 frame_vga, Task_Start 1000,
        Task_Settle 1100 (Run_Resolves [(''output'', [0, 0, 0, 0, 0.96875, 0.25])]),
        Frame 600 frame_vga])
   \<noteq> performInference bgr_buffer 1600 (Run_Throws (Error ''engine failed'')) 1720
     (run resize_ok initial_state
       [Session_Created (InferenceSession 0), Frame 0 frame_vga, Task_Start 1000,
        Task_Settle 1100 (Run_Resolves [(''output'', [0, 0, 0, 0, 0.96875, 0.25])]),
        Frame 600 frame_vga])
   \<and> scanResult (performInference bgr_buffer 1600
         (Run_Resolves [(''output'', [0, 0, 0, 0, 0.984375])]) 1720
         (run resize_ok initial_state
           [Session_Created (InferenceSession 0), Frame 0 frame_vga, Task_Start 1000,
            Task_Settle 1100 (Run_Resolves [(''output'', [0, 0, 0, 0, 0.96875, 0.25])]),
            Frame 600 frame_vga]))
       = Some \<lparr>label = ''BACK'', score = Chars ''98''\<rparr>
   \<and> scanResult (performInference bgr_buffer 1600 (Run_Resolves [(''output'', [])]) 1720
         (run resize_ok initial_state
           [Session_Created (InferenceSession 0), Frame 0 frame_vga, Task_Start 1000,
            Task_Settle 1100 (Run_Resolves [(''output'', [0, 0, 0, 0, 0.96875, 0.25])]),
            Frame 600 frame_vga]))
       = None
   \<and> latency (performInference bgr_buffer 1600 (Run_Resolves [(''output'', [])]) 1720
         (run resize_ok initial_state
           [Session_Created (InferenceSession 0), Frame 0 frame_vga, Task_Start 1000,
            Task_Settle 1100 (Run_Resolves [(''output'', [0, 0, 0, 0, 0.96875, 0.25])]),
            Frame 600 frame_vga]))
       = 120
   \<and> console (performInference bgr_buffer 1600 (Run_Resolves [(''output'', [])]) 1720
         (run resize_ok initial_state
           [Session_Created (InferenceSession 0), Frame 0 frame_vga, Task_Start 1000,
            Task_Settle 1100 (Run_Resolves [(''output'', [0, 0, 0, 0, 0.96875, 0.25])]),
            Frame 600 frame_vga]))
       = []
   \<and> scanResult (performInference bgr_buffer 1600 (Run_Throws (Error ''engine failed'')) 1720
         (run resize_ok initial_state
           [Session_Created (InferenceSession 0), Frame 0 frame_vga, Task_Start 1000,
            Task_Settle 1100 (Run_Resolves [(''output'', [0, 0, 0, 0, 0.96875, 0.25])]),
            Frame 600 frame_vga]))
       = Some \<lparr>label = ''FRONT'', score = Chars ''97''\<rparr>
   \<and> latency (performInference bgr_buffer 1600 (Run_Throws (Error ''engine failed'')) 1720
         (run resize_ok initial_state
           [Session_Created (InferenceSession 0), Frame 0 frame_vga, Task_Start 1000,
            Task_Settle 1100 (Run_Resolves [(''output'', [0, 0, 0, 0, 0.96875, 0.25])]),
            Frame 600 frame_vga]))
       = 100
   \<and> console (performInference bgr_buffer 1600 (Run_Throws (Error ''engine failed'')) 1720
         (run resize_ok initial_state
           [Session_Created (InferenceSession 0), Frame 0 frame_vga, Task_Start 1000,
            Task_Settle 1100 (Run_Resolves [(''output'', [0, 0, 0, 0, 0.96875, 0.25])]),
            Frame 600 frame_vga]))
       = [(''Inference Error:'', Error ''engine failed'')]"
  unfolding detected_state
  by (simp add: bgr_buffer_length performInference_def settle_def try_body_def scan_result_of_def
      typed_array_get_def Math_round_def CONFIDENCE_THRESHOLD_def toFixed0_def double_eval
      round_def decimal.simps)

text \<open>
  C4, amended. For an output tensor with fewer than six elements the invocation ends as a
  normal completion: the busy flag is cleared, nothing is thrown or logged, the latency is
  recorded, and the result is recomputed from the values read, a missing value being
  \<^verbatim>\<open>undefined\<close>: it is BACK with the score's percentage (the product of doubles, as
  \<^verbatim>\<open>toFixed(0)\<close> prints it) when the tensor has exactly five elements and its score is
  above 0.95, and absent otherwise.
\<close>

theorem short_tensor_completes:
  "sessionRef st \<noteq> None \<Longrightarrow> length data < 6 \<Longrightarrow>
     performInference bgrArray t0 (Run_Resolves ((name, data) # outs)) t1 st =
       st\<lparr>scanResult :=
            (if length data = 5 \<and> 0.95 < data ! 4
             then Some \<lparr>label = ''BACK'', score = toFixed0 (double_mul (data ! 4) 100)\<rparr>
             else None),
          latency := t1 - t0,
          isInferenceBusy := False\<rparr>"
  by (auto simp: performInference_def settle_def try_body_def scan_result_of_short)

theorem short_tensor_completes_witness:
  "sessionRef (run resize_ok initial_state
       [Session_Created (InferenceSession 0), Frame 0 frame_vga, Task_Start 1000,
        Task_Settle 1100 (Run_Resolves [(''output'', [0, 0, 0, 0, 0.96875, 0.25])]),
        Frame 600 frame_vga]) \<noteq> None
   \<and> length [0, 0, 0, 0, 0.984375 :: real] < 6
   \<and> performInference bgr_buffer 1600 (Run_Resolves [(''output'', [0, 0, 0, 0, 0.984375])]) 1720
       (run resize_ok initial_state
         [Session_Created (InferenceSession 0), Frame 0 frame_vga, Task_Start 1000,
          Task_Settle 1100 (Run_Resolves [(''output'', [0, 0, 0, 0, 0.96875, 0.25])]),
          Frame 600 frame_vga])
     = \<lparr>modelStatus = Status_Ready, scanResult = Some \<lparr>label = ''BACK'', score = Chars ''98''\<rparr>,
        latency = 120, sessionRef = Some (InferenceSession 0), isModelReady = True,
        isInferenceBusy = False, lastAdmitted = Some 600, console = [], queued = [bgr_buffer],
        awaiting = []\<rparr>
   \<and> performInference bgr_buffer 1600 (Run_Resolves [(''output'', [0.984375, 1])]) 1720
       (run resize_ok initial_state
         [Session_Created (InferenceSession 0), Frame 0 frame_vga, Task_Start 1000,
          Task_Settle 1100 (Run_Resolves [(''output'', [0, 0, 0, 0, 0.96875, 0.25])]),
          Frame 600 frame_vga])
     = \<lparr>modelStatus = Status_Ready, scanResult = None,
        latency = 120, sessionRef = Some (InferenceSession 0), isModelReady = True,
        isInferenceBusy = False, lastAdmitted = Some 600, console = [], queued = [bgr_buffer],
        awaiting = []\<rparr>"
proof -
  let ?st = "run resize_ok initial_state
       [Session_Created (InferenceSession 0), Frame 0 frame_vga, Task_Start 1000,
        Task_Settle 1100 (Run_Resolves [(''output'', [0, 0, 0, 0, 0.96875, 0.25])]),
        Frame 600 frame_vga]"
  have session: "sessionRef ?st \<noteq> None"
    by (simp only: detected_state) simp
  have five: "length [0, 0, 0, 0, 0.984375 :: real] < 6" and two: "length [0.984375, 1 :: real] < 6"
    by simp_all
  show ?thesis
    using session five
      short_tensor_completes [OF session five, of bgr_buffer 1600 "''output''" "[]" 1720]
      short_tensor_completes [OF session two, of bgr_buffer 1600 "''output''" "[]" 1720]
    unfolding detected_state
    by (simp add: toFixed0_def double_eval round_def decimal.simps)
qed

subsection \<open>Readiness\<close>

lemma frameProcessor_not_ready:
  "\<not> isModelReady st \<Longrightarrow>
     frameProcessor resize now fr st = st\<lparr>lastAdmitted := snd (admit now (lastAdmitted st))\<rparr>"
  using admit_cases [of now "lastAdmitted st"]
  by (auto simp: frameProcessor_def sampled_body_def)

lemma not_loaded_initial: "not_loaded initial_state"
  by (simp add: not_loaded_def initial_state_def)

lemma not_loaded_step:
  "not_loaded st \<Longrightarrow> \<not> is_session_created ev \<Longrightarrow> not_loaded (step resize st ev)"
  by (cases ev)
    (simp_all add: not_loaded_def session_failed_def frameProcessor_not_ready task_start_def
      task_settle_def)

lemma not_loaded_run:
  "not_loaded st \<Longrightarrow> \<forall>e \<in> set evs. \<not> is_session_created e \<Longrightarrow> not_loaded (run resize st evs)"
  by (induction evs rule: rev_induct) (simp_all add: run_Nil run_snoc not_loaded_step)

text \<open>
  C6. A frame that arrives while \<^verbatim>\<open>isModelReady\<close> is false is dropped before the gate: only
  the sampler's time changes, and nothing is dispatched. No task is in flight in any
  reachable state that is not ready. If no model load succeeds, so in particular if the
  load fails, the pipeline stays not ready with no session, nothing in flight, nothing
  published and nothing logged, and every frame is refused; the failed load itself only
  sets the status shown.
\<close>

theorem not_ready_refuses:
  "(\<not> isModelReady st \<longrightarrow>
      frameProcessor resize now fr st = st\<lparr>lastAdmitted := snd (admit now (lastAdmitted st))\<rparr>
      \<and> \<not> acquires resize st (Frame now fr))
   \<and> (\<not> isModelReady (run resize initial_state evs) \<longrightarrow>
        in_flight (run resize initial_state evs) = 0)
   \<and> ((\<forall>e \<in> set evs. \<not> is_session_created e) \<longrightarrow>
        \<not> isModelReady (run resize initial_state evs)
        \<and> sessionRef (run resize initial_state evs) = None
        \<and> \<not> isInferenceBusy (run resize initial_state evs)
        \<and> in_flight (run resize initial_state evs) = 0
        \<and> scanResult (run resize initial_state evs) = None
        \<and> console (run resize initial_state evs) = []
        \<and> \<not> acquires resize (run resize initial_state evs) (Frame now fr))
   \<and> step resize st Session_Failed = st\<lparr>modelStatus := Status_Error\<rparr>"
proof (intro conjI impI)
  let ?st = "run resize initial_state evs"
  show "frameProcessor resize now fr st = st\<lparr>lastAdmitted := snd (admit now (lastAdmitted st))\<rparr>"
    if "\<not> isModelReady st"
    using that by (rule frameProcessor_not_ready)
  show "\<not> acquires resize st (Frame now fr)" if "\<not> isModelReady st"
    using that by (simp add: acquires_Frame)
  show "in_flight ?st = 0" if "\<not> isModelReady ?st"
    using that inv_reachable [of resize evs] by (auto simp: pipeline_inv_def)
  show "step resize st Session_Failed = st\<lparr>modelStatus := Status_Error\<rparr>"
    by (simp add: session_failed_def)
  assume "\<forall>e \<in> set evs. \<not> is_session_created e"
  then have nl: "not_loaded ?st"
    using not_loaded_initial not_loaded_run by blast
  then show "\<not> isModelReady ?st" "sessionRef ?st = None" "\<not> isInferenceBusy ?st"
    "scanResult ?st = None" "console ?st = []"
    by (simp_all add: not_loaded_def)
  from nl show "in_flight ?st = 0"
    by (simp add: not_loaded_def in_flight_def)
  from nl show "\<not> acquires resize ?st (Frame now fr)"
    by (simp add: not_loaded_def acquires_Frame)
qed

theorem not_ready_refuses_witness:
  "\<not> isModelReady (run resize_ok initial_state [Frame 0 frame_vga, Session_Failed])
   \<and> frameProcessor resize_ok 600 frame_vga
        (run resize_ok initial_state [Frame 0 frame_vga, Session_Failed])
      = \<lparr>modelStatus = Status_Error, scanResult = None, latency = 0, sessionRef = None,
         isModelReady = False, isInferenceBusy = False, lastAdmitted = Some 600, console = [],
         queued = [], awaiting = []\<rparr>
   \<and> \<not> acquires resize_ok (run resize_ok initial_state [Frame 0 frame_vga, Session_Failed])
         (Frame 600 frame_vga)
   \<and> \<not> is_session_created (Frame 0 frame_vga) \<and> \<not> is_session_created Session_Failed
   \<and> in_flight (run resize_ok initial_state [Frame 0 frame_vga, Session_Failed]) = 0
   \<and> modelStatus (step resize_ok (run resize_ok initial_state [Frame 0 frame_vga]) Session_Failed)
      = Status_Error"
proof -
  let ?evs = "[Frame 0 frame_vga, Session_Failed]"
  have st: "run resize_ok initial_state ?evs =
      \<lparr>modelStatus = Status_Error, scanResult = None, latency = 0, sessionRef = None,
       isModelReady = False, isInferenceBusy = False, lastAdmitted = Some 0, console = [],
       queued = [], awaiting = []\<rparr>"
    by (simp add: eval_defs)
  have unready: "\<not> isModelReady (run resize_ok initial_state ?evs)"
    by (simp only: st) simp
  have none: "\<forall>e \<in> set ?evs. \<not> is_session_created e"
    by simp
  have adm: "snd (admit 600 (Some 0)) = Some 600"
    by (simp add: admit_def sample_interval_def TARGET_FPS_def)
  show ?thesis
    using unready none adm
      not_ready_refuses [of "run resize_ok initial_state ?evs" resize_ok 600 frame_vga ?evs]
      not_ready_refuses [of "run resize_ok initial_state [Frame 0 frame_vga]" resize_ok 600
        frame_vga ?evs]
    unfolding st
    by simp
qed

lemma frameProcessor_ready:
  "isModelReady (frameProcessor resize now fr st) = isModelReady st"
  using admit_cases [of now "lastAdmitted st"]
  by (auto simp: frameProcessor_def sampled_body_def split: resize_outcome.splits if_splits)

lemma step_ready:
  "isModelReady (step resize st ev) = (isModelReady st \<or> is_session_created ev)"
  by (cases ev)
    (auto simp: session_created_def session_failed_def frameProcessor_ready task_start_def
      task_settle_def settle_fields split: list.splits)

text \<open>
  C10. \<^verbatim>\<open>isModelReady\<close> is monotone: it is false initially, no sequence of events resets it
  once it is true, and the only event that changes it is the successful model load,
  which sets it.
\<close>

theorem modelReady_monotone:
  "\<not> isModelReady initial_state
   \<and> (isModelReady st \<longrightarrow> isModelReady (run resize st evs))
   \<and> (isModelReady (step resize st ev) \<noteq> isModelReady st \<longrightarrow>
        is_session_created ev \<and> isModelReady (step resize st ev))"
proof (intro conjI impI)
  show "\<not> isModelReady initial_state"
    by (simp add: initial_state_def)
  show "isModelReady (run resize st evs)" if "isModelReady st"
    using that by (induction evs rule: rev_induct) (simp_all add: run_Nil run_snoc step_ready)
  show "is_session_created ev" "isModelReady (step resize st ev)"
    if "isModelReady (step resize st ev) \<noteq> isModelReady st"
    using that by (auto simp: step_ready)
qed


theorem modelReady_monotone_witness:
  "isModelReady (run resize_ok initial_state [Session_Created (InferenceSession 0)])
   \<and> isModelReady
        (run resize_ok (run resize_ok initial_state [Session_Created (InferenceSession 0)])
          [Frame 0 frame_vga, Task_Start 1000,
           Task_Settle 1100 (Run_Throws (Error ''engine failed'')), Session_Failed,
           Frame 600 frame_vga])
   \<and> isModelReady (step resize_ok initial_state (Session_Created (InferenceSession 0)))
        \<noteq> isModelReady initial_state
   \<and> is_session_created (Session_Created (InferenceSession 0))"
proof -
  have ready: "isModelReady (run resize_ok initial_state [Session_Created (InferenceSession 0)])"
    by (simp add: eval_defs)
  have changed: "isModelReady (step resize_ok initial_state (Session_Created (InferenceSession 0)))
      \<noteq> isModelReady initial_state"
    by (simp add: eval_defs)
  show ?thesis
    using ready changed
      modelReady_monotone [where st = "run resize_ok initial_state
          [Session_Created (InferenceSession 0)]" and resize = resize_ok
        and evs = "[Frame 0 frame_vga, Task_Start 1000,
          Task_Settle 1100 (Run_Throws (Error ''engine failed'')), Session_Failed,
          Frame 600 frame_vga]" and ev = "Frame 0 frame_vga"]
      modelReady_monotone [where st = initial_state and resize = resize_ok and evs = "[]"
        and ev = "Session_Created (InferenceSession 0)"]
    by blast
qed

subsection \<open>The frame processor\<close>

lemma frameProcessor_resize_falsy:
  "resize fr (resize_request fr) = Resize_Falsy \<Longrightarrow>
     frameProcessor resize now fr st = st\<lparr>lastAdmitted := snd (admit now (lastAdmitted st))\<rparr>"
  using admit_cases [of now "lastAdmitted st"]
  by (auto simp: frameProcessor_def sampled_body_def)

lemma frameProcessor_resize_throws:
  "resize fr (resize_request fr) = Resize_Throws e \<Longrightarrow>
     frameProcessor resize now fr st =
       (if fst (admit now (lastAdmitted st)) \<and> \<not> isInferenceBusy st \<and> isModelReady st
        then st\<lparr>lastAdmitted := snd (admit now (lastAdmitted st)),
                console := console st @ [(''Worklet Error:'', e)]\<rparr>
        else st\<lparr>lastAdmitted := snd (admit now (lastAdmitted st))\<rparr>)"
  using admit_cases [of now "lastAdmitted st"]
  by (auto simp: frameProcessor_def sampled_body_def)

text \<open>
  C9, as stated, fails in its last clause: a frame whose resize step throws is not dropped
  silently. In a ready and idle pipeline with an empty console, a frame on which the
  plugin throws leaves one line, \<^verbatim>\<open>Worklet Error:\<close> with the error, on the console
  (lines 104 to 106).
\<close>

theorem failed_resize_logs_counterexample:
  "resize_bad frame_vga (resize_request frame_vga) = Resize_Throws (Error ''resize failed'')
   \<and> console (session_created (InferenceSession 0) initial_state) = []
   \<and> console
        (frameProcessor resize_bad 0 frame_vga (session_created (InferenceSession 0) initial_state))
      = [(''Worklet Error:'', Error ''resize failed'')]
   \<and> console
        (frameProcessor resize_bad 0 frame_vga (session_created (InferenceSession 0) initial_state))
      \<noteq> console (session_created (InferenceSession 0) initial_state)"
  by (simp add: resize_bad_def session_created_def initial_state_def frameProcessor_def
      admit_def sampled_body_def)

text \<open>
  C9, amended. The resize step comes before the gate is taken: on a frame for which it
  returns a falsy value or throws, the busy flag, the dispatched tasks and every other
  field of the pipeline state are as before, and the frame does not acquire the gate, so
  that nothing is to be released. Only the sampler's time changes, and the frame is
  dropped silently when the result is falsy, and with one \<^verbatim>\<open>Worklet Error:\<close> line on the
  console when the step throws (in a ready and idle pipeline, where the step is run).
\<close>

theorem failed_resize_drops_frame:
  "resize fr (resize_request fr) = Resize_Falsy \<or> resize fr (resize_request fr) = Resize_Throws e
   \<Longrightarrow>
     isInferenceBusy (frameProcessor resize now fr st) = isInferenceBusy st
     \<and> queued (frameProcessor resize now fr st) = queued st
     \<and> awaiting (frameProcessor resize now fr st) = awaiting st
     \<and> \<not> acquires resize st (Frame now fr)
     \<and> scanResult (frameProcessor resize now fr st) = scanResult st
     \<and> latency (frameProcessor resize now fr st) = latency st
     \<and> isModelReady (frameProcessor resize now fr st) = isModelReady st
     \<and> sessionRef (frameProcessor resize now fr st) = sessionRef st
     \<and> modelStatus (frameProcessor resize now fr st) = modelStatus st
     \<and> console (frameProcessor resize now fr st) =
         (if resize fr (resize_request fr) = Resize_Throws e
             \<and> fst (admit now (lastAdmitted st)) \<and> \<not> isInferenceBusy st \<and> isModelReady st
          then console st @ [(''Worklet Error:'', e)] else console st)"
proof -
  assume "resize fr (resize_request fr) = Resize_Falsy
      \<or> resize fr (resize_request fr) = Resize_Throws e"
  then show ?thesis
  proof
    assume falsy: "resize fr (resize_request fr) = Resize_Falsy"
    then show ?thesis
      by (simp add: frameProcessor_resize_falsy acquires_Frame)
  next
    assume throws: "resize fr (resize_request fr) = Resize_Throws e"
    then show ?thesis
      by (simp add: frameProcessor_resize_throws acquires_Frame)
  qed
qed

theorem failed_resize_drops_frame_witness:
  "resize_bad frame_vga (resize_request frame_vga) = Resize_Throws (Error ''resize failed'')
   \<and> resize_null frame_vga (resize_request frame_vga) = Resize_Falsy
   \<and> \<not> isInferenceBusy (session_created (InferenceSession 0) initial_state)
   \<and> \<not> isInferenceBusy
        (frameProcessor resize_bad 0 frame_vga (session_created (InferenceSession 0) initial_state))
   \<and> queued
        (frameProcessor resize_bad 0 frame_vga (session_created (InferenceSession 0) initial_state))
      = []
   \<and> console
        (frameProcessor resize_bad 0 frame_vga (session_created (InferenceSession 0) initial_state))
      = [(''Worklet Error:'', Error ''resize failed'')]
   \<and> \<not> isInferenceBusy
        (frameProcessor resize_null 0 frame_vga (session_created (InferenceSession 0) initial_state))
   \<and> queued
        (frameProcessor resize_null 0 frame_vga (session_created (InferenceSession 0) initial_state))
      = []
   \<and> console
        (frameProcessor resize_null 0 frame_vga (session_created (InferenceSession 0) initial_state))
      = []"
proof -
  let ?st = "session_created (InferenceSession 0) initial_state"
  have bad: "resize_bad frame_vga (resize_request frame_vga) = Resize_Throws (Error ''resize failed'')"
    by (simp add: resize_bad_def)
  have null: "resize_null frame_vga (resize_request frame_vga) = Resize_Falsy"
    by (simp add: resize_null_def)
  have st: "\<not> isInferenceBusy ?st" "isModelReady ?st" "queued ?st = []" "console ?st = []"
    "fst (admit 0 (lastAdmitted ?st))"
    by (simp_all add: session_created_def initial_state_def admit_def)
  show ?thesis
    using bad null st
      failed_resize_drops_frame [where resize = resize_bad and fr = frame_vga
        and e = "Error ''resize failed''" and now = 0 and st = ?st]
      failed_resize_drops_frame [where resize = resize_null and fr = frame_vga
        and e = "Error ''resize failed''" and now = 0 and st = ?st]
    by simp
qed

lemma crop_rect_closed:
  "crop_rect fr =
     \<lparr>rect_x = (real (width fr) - real (width fr) * 0.83) / 2,
      rect_y = (real (height fr) - real (width fr) * 0.83 * 1.62) / 2,
      rect_width = real (width fr) * 0.83,
      rect_height = real (width fr) * 0.83 * 1.62\<rparr>"
  by (simp add: crop_rect_def Let_def)

text \<open>
  C8. The crop rectangle is not clipped to the frame: for a frame whose height is less
  than \<open>0.83 * 1.62\<close> times its width, its \<open>y\<close> origin is negative and its height exceeds
  the frame's, so that it reaches beyond the frame at both ends; and this rectangle is the
  one the frame processor passes to the resize plugin.
\<close>

theorem crop_not_clipped:
  "real (height fr) < 0.83 * 1.62 * real (width fr) \<Longrightarrow>
     rect_y (crop_rect fr) < 0
     \<and> real (height fr) < rect_height (crop_rect fr)
     \<and> real (height fr) < rect_y (crop_rect fr) + rect_height (crop_rect fr)
     \<and> crop (resize_request fr) = crop_rect fr
     \<and> sampled_body resize fr st =
         (if isInferenceBusy st \<or> \<not> isModelReady st then st
          else case resize fr
                 \<lparr>crop = \<lparr>rect_x = (real (width fr) - real (width fr) * 0.83) / 2,
                           rect_y = (real (height fr) - real (width fr) * 0.83 * 1.62) / 2,
                           rect_width = real (width fr) * 0.83,
                           rect_height = real (width fr) * 0.83 * 1.62\<rparr>,
                  scale = \<lparr>extent_width = 320, extent_height = 240\<rparr>,
                  pixelFormat = ''bgr'', dataType = ''uint8''\<rparr> of
                 Resize_Throws e \<Rightarrow> st\<lparr>console := console st @ [(''Worklet Error:'', e)]\<rparr>
               | Resize_Falsy \<Rightarrow> st
               | Resized resized \<Rightarrow>
                   st\<lparr>isInferenceBusy := True, queued := queued st @ [resized]\<rparr>)"
proof (intro conjI)
  assume short: "real (height fr) < 0.83 * 1.62 * real (width fr)"
  then show "rect_y (crop_rect fr) < 0"
    by (simp add: crop_rect_closed)
  from short show "real (height fr) < rect_height (crop_rect fr)"
    by (simp add: crop_rect_closed)
  from short show "real (height fr) < rect_y (crop_rect fr) + rect_height (crop_rect fr)"
    by (simp add: crop_rect_closed field_simps)
  show "crop (resize_request fr) = crop_rect fr"
    by (simp add: resize_request_def)
  show "sampled_body resize fr st =
         (if isInferenceBusy st \<or> \<not> isModelReady st then st
          else case resize fr
                 \<lparr>crop = \<lparr>rect_x = (real (width fr) - real (width fr) * 0.83) / 2,
                           rect_y = (real (height fr) - real (width fr) * 0.83 * 1.62) / 2,
                           rect_width = real (width fr) * 0.83,
                           rect_height = real (width fr) * 0.83 * 1.62\<rparr>,
                  scale = \<lparr>extent_width = 320, extent_height = 240\<rparr>,
                  pixelFormat = ''bgr'', dataType = ''uint8''\<rparr> of
                 Resize_Throws e \<Rightarrow> st\<lparr>console := console st @ [(''Worklet Error:'', e)]\<rparr>
               | Resize_Falsy \<Rightarrow> st
               | Resized resized \<Rightarrow>
                   st\<lparr>isInferenceBusy := True, queued := queued st @ [resized]\<rparr>)"
    by (simp only: sampled_body_def resize_request_def crop_rect_closed)
qed

theorem crop_not_clipped_witness:
  "real (height frame_vga) < 0.83 * 1.62 * real (width frame_vga)
   \<and> rect_y (crop_rect frame_vga) = - 190.272
   \<and> rect_y (crop_rect frame_vga) < 0
   \<and> rect_height (crop_rect frame_vga) = 860.544
   \<and> real (height frame_vga) < rect_height (crop_rect frame_vga)
   \<and> crop (resize_request frame_vga) =
       \<lparr>rect_x = 54.4, rect_y = - 190.272, rect_width = 531.2, rect_height = 860.544\<rparr>"
proof -
  have short: "real (height frame_vga) < 0.83 * 1.62 * real (width frame_vga)"
    by (simp add: frame_vga_def)
  have crop: "crop_rect frame_vga =
      \<lparr>rect_x = 54.4, rect_y = - 190.272, rect_width = 531.2, rect_height = 860.544\<rparr>"
    by (simp add: crop_rect_def frame_vga_def)
  show ?thesis
    using short crop crop_not_clipped [OF short, of resize_ok initial_state]
    by simp
qed

subsection \<open>The sampler\<close>

lemma admit_all_Cons:
  "admit_all prev (t # ts) =
     (fst (admit t prev) # fst (admit_all (snd (admit t prev)) ts),
      snd (admit_all (snd (admit t prev)) ts))"
  by (simp add: split_def Let_def)

lemma admit_all_length: "length (fst (admit_all prev ts)) = length ts"
  by (induction ts arbitrary: prev) (simp_all add: split_def Let_def)

lemma admit_all_append:
  "admit_all prev (xs @ ys) =
     (fst (admit_all prev xs) @ fst (admit_all (snd (admit_all prev xs)) ys),
      snd (admit_all (snd (admit_all prev xs)) ys))"
  by (induction xs arbitrary: prev) (simp_all add: split_def Let_def)

lemma admit_all_take:
  "fst (admit_all prev (take i ts)) = take i (fst (admit_all prev ts))"
proof -
  have "fst (admit_all prev (take i ts @ drop i ts)) =
      fst (admit_all prev (take i ts)) @
      fst (admit_all (snd (admit_all prev (take i ts))) (drop i ts))"
    by (simp only: admit_all_append fst_conv)
  then have "take i (fst (admit_all prev ts)) =
      take i (fst (admit_all prev (take i ts)) @
        fst (admit_all (snd (admit_all prev (take i ts))) (drop i ts)))"
    by simp
  also have "\<dots> = fst (admit_all prev (take i ts))"
    by (cases "i \<le> length ts") (simp_all add: admit_all_length)
  finally show ?thesis by simp
qed

lemma admit_all_nth:
  assumes "i < length ts"
  shows "fst (admit_all prev ts) ! i = fst (admit (ts ! i) (snd (admit_all prev (take i ts))))"
proof -
  have "ts = take i ts @ ts ! i # drop (Suc i) ts"
    using assms by (rule id_take_nth_drop)
  then have "fst (admit_all prev ts) ! i =
      fst (admit_all prev (take i ts @ ts ! i # drop (Suc i) ts)) ! i"
    by simp
  also have "\<dots> = fst (admit (ts ! i) (snd (admit_all prev (take i ts))))"
    using assms
    by (simp only: admit_all_append fst_conv admit_all_Cons)
      (simp add: nth_append admit_all_length)
  finally show ?thesis .
qed

lemma admit_all_take_Suc:
  assumes "i < length ts"
  shows "snd (admit_all prev (take (Suc i) ts)) =
     snd (admit (ts ! i) (snd (admit_all prev (take i ts))))"
  using assms by (simp add: take_Suc_conv_app_nth admit_all_append split_def Let_def)

lemma admitted_times_Cons:
  "admitted_times (t # ts) (b # bs) = (if b then t # admitted_times ts bs else admitted_times ts bs)"
  by (simp add: admitted_times_def)

lemma last_admitted_Cons:
  "last_admitted (t # ts) (b # bs) =
     (case last_admitted ts bs of None \<Rightarrow> (if b then Some t else None) | Some u \<Rightarrow> Some u)"
  by (simp add: last_admitted_def admitted_times_Cons split: list.splits)

lemma admit_all_stored:
  "snd (admit_all prev ts) =
     (case last_admitted ts (fst (admit_all prev ts)) of None \<Rightarrow> prev | Some t \<Rightarrow> Some t)"
proof (induction ts arbitrary: prev)
  case Nil
  show ?case by (simp add: last_admitted_def admitted_times_def)
next
  case (Cons t ts)
  let ?b = "fst (admit t prev)" and ?p = "snd (admit t prev)"
  have stored: "snd (admit_all prev (t # ts)) = snd (admit_all ?p ts)"
    and answers: "fst (admit_all prev (t # ts)) = ?b # fst (admit_all ?p ts)"
    by (simp_all only: admit_all_Cons fst_conv snd_conv)
  from admit_cases [of t prev] have "(?b \<and> ?p = Some t) \<or> (\<not> ?b \<and> ?p = prev)"
    by auto
  then show ?case
    unfolding stored answers last_admitted_Cons Cons.IH [of ?p]
    by (auto split: option.splits)
qed

lemma admit_all_stored_None:
  "snd (admit_all None ts) = last_admitted ts (fst (admit_all None ts))"
  by (simp add: admit_all_stored [of None ts] split: option.splits)

text \<open>
  C7. Rate limiting at two samples per second. For calls at strictly increasing times, a
  call is admitted iff no call was admitted before it or its time is at least one
  interval (500 ms) after the time of the last admitted call; the time stored before a
  call is that of the last admitted call; an admitted call stores its own time and a
  rejected one leaves the stored time as it was; and the first call is admitted.
\<close>

theorem rate_limiting:
  "sorted_wrt (<) ts \<Longrightarrow> i < length ts \<Longrightarrow>
     length (fst (admit_all None ts)) = length ts
     \<and> (fst (admit_all None ts) ! i \<longleftrightarrow>
          (case last_admitted (take i ts) (take i (fst (admit_all None ts))) of
             None \<Rightarrow> True
           | Some t \<Rightarrow> ts ! i - t \<ge> 1000 / 2))
     \<and> snd (admit_all None (take i ts)) =
          last_admitted (take i ts) (take i (fst (admit_all None ts)))
     \<and> snd (admit_all None (take (Suc i) ts)) =
          (if fst (admit_all None ts) ! i then Some (ts ! i)
           else snd (admit_all None (take i ts)))
     \<and> fst (admit_all None ts) ! 0"
proof (intro conjI)
  assume i: "i < length ts"
  let ?bs = "fst (admit_all None ts)"
  let ?before = "snd (admit_all None (take i ts))"
  show "length ?bs = length ts"
    by (rule admit_all_length)
  have before: "?before = last_admitted (take i ts) (take i ?bs)"
    by (simp only: admit_all_stored_None admit_all_take)
  then show "?before = last_admitted (take i ts) (take i ?bs)" .
  have ith: "?bs ! i = fst (admit (ts ! i) ?before)"
    using i by (rule admit_all_nth)
  show "?bs ! i \<longleftrightarrow>
      (case last_admitted (take i ts) (take i ?bs) of None \<Rightarrow> True | Some t \<Rightarrow> ts ! i - t \<ge> 1000 / 2)"
    unfolding ith before [symmetric]
    by (simp add: admit_def sample_interval_def TARGET_FPS_def split: option.splits)
  show "snd (admit_all None (take (Suc i) ts)) = (if ?bs ! i then Some (ts ! i) else ?before)"
    using admit_cases [of "ts ! i" ?before]
    by (auto simp: admit_all_take_Suc [OF i] ith)
  from i have "0 < length ts" by (cases ts) simp_all
  then have "?bs ! 0 = fst (admit (ts ! 0) (snd (admit_all None (take 0 ts))))"
    by (rule admit_all_nth)
  then show "?bs ! 0"
    by (simp add: admit_def)
qed

theorem rate_limiting_witness:
  "sorted_wrt (<) [0, 400, 800, 1200, 1600 :: real]
   \<and> (3::nat) < length [0, 400, 800, 1200, 1600 :: real]
   \<and> fst (admit_all None [0, 400, 800, 1200, 1600]) = [True, False, True, False, True]
   \<and> last_admitted (take 3 [0, 400, 800, 1200, 1600]) (take 3 [True, False, True, False, True])
      = Some 800
   \<and> \<not> fst (admit_all None [0, 400, 800, 1200, 1600]) ! 3
   \<and> snd (admit_all None (take 3 [0, 400, 800, 1200, 1600])) = Some 800
   \<and> snd (admit_all None (take (Suc 3) [0, 400, 800, 1200, 1600])) = Some 800
   \<and> fst (admit_all None [0, 400, 800, 1200, 1600]) ! 0"
proof -
  let ?ts = "[0, 400, 800, 1200, 1600 :: real]"
  have sorted: "sorted_wrt (<) ?ts"
    by simp
  have i: "(3::nat) < length ?ts"
    by simp
  have bs: "fst (admit_all None ?ts) = [True, False, True, False, True]"
    by (simp add: admit_def sample_interval_def TARGET_FPS_def)
  have la: "last_admitted (take 3 ?ts) (take 3 [True, False, True, False, True]) = Some 800"
    by (simp add: last_admitted_def admitted_times_def)
  show ?thesis
    using sorted i bs la rate_limiting [OF sorted i]
    by simp
qed

end
